theory Spec2Isabelle
  imports Complex_Main "HOL-Library.Multiset"
begin

section \<open>JavaScript numbers\<close>

text \<open>
  The total of \<^verbatim>\<open>/calculate-total\<close> is computed with the JavaScript operators
  \<^verbatim>\<open>+\<close> and \<^verbatim>\<open>*\<close> on Number values, that is, on IEEE-754 binary64 values with
  round-to-nearest, ties-to-even. A Number is modelled as \<open>NaN\<close>, an infinity, or a finite
  value given by the rational it denotes. Negative zero is identified with zero: the
  accumulator of the reduce starts at \<open>+0\<close>, a sum with a \<open>+0\<close> operand or an exact
  cancellation is \<open>+0\<close>, an infinity times either zero is \<open>NaN\<close>, and JSON prints both
  zeros as \<open>0\<close>, so the sign of a zero is never observable in the total.
\<close>

datatype jsnum = NaN | PosInf | NegInf | Fin rat

definition pow2 :: "int \<Rightarrow> rat" where
  "pow2 e = (if 0 \<le> e then 2 ^ nat e else 1 / 2 ^ nat (- e))"

text \<open>The number of binary digits of a positive integer (0 for the others).\<close>

function bit_length :: "int \<Rightarrow> int" where
  "bit_length a = (if a \<le> 0 then 0 else 1 + bit_length (a div 2))"
  by pat_completeness auto
termination
  by (relation "measure nat") auto

declare bit_length.simps [simp del]

text \<open>
  \<open>ilog2 x\<close> is the binary exponent of a non-zero rational: \<open>pow2 (ilog2 x) \<le> \<bar>x\<bar> < pow2 (ilog2 x + 1)\<close>.
  The difference of the bit lengths of numerator and denominator is that exponent or one more.
\<close>

definition ilog2 :: "rat \<Rightarrow> int" where
  "ilog2 x =
     (let (a, b) = quotient_of \<bar>x\<bar>;
          k = bit_length a - bit_length b
      in if pow2 k \<le> \<bar>x\<bar> then k else k - 1)"

definition round_half_even :: "rat \<Rightarrow> int" where
  "round_half_even x =
     (let f = \<lfloor>x\<rfloor>; d = x - of_int f
      in if d < 1 / 2 then f
         else if 1 / 2 < d then f + 1
         else if even f then f else f + 1)"

text \<open>
  A significand \<open>n\<close> with \<open>\<bar>n\<bar> \<le> 2 ^ 53\<close> at unit exponent \<open>e\<close> denotes \<open>n * 2 ^ e\<close>. The largest
  finite binary64 value is \<open>(2 ^ 53 - 1) * 2 ^ 971\<close>; a rounded value of magnitude
  \<open>2 ^ 1024\<close> or more is an infinity.
\<close>

definition overflows :: "int \<Rightarrow> int \<Rightarrow> bool" where
  "overflows n e \<longleftrightarrow> 971 < e \<or> (e = 971 \<and> 2 ^ 53 \<le> \<bar>n\<bar>)"

text \<open>
  \<open>fl x\<close> is the Number value for the real \<open>x\<close>: the unit in the last place of the binade of
  \<open>x\<close> is \<open>2 ^ (ilog2 x - 52)\<close>, not below the subnormal unit \<open>2 ^ (- 1074)\<close>, and \<open>x\<close> is rounded
  to the nearest multiple of it, a tie going to the even significand.
\<close>

definition fl :: "rat \<Rightarrow> jsnum" where
  "fl x =
     (if x = 0 then Fin 0
      else let e = max (ilog2 x) (- 1022) - 52;
               n = round_half_even (x / pow2 e)
           in if overflows n e then (if 0 < x then PosInf else NegInf)
              else Fin (of_int n * pow2 e))"

fun js_add :: "jsnum \<Rightarrow> jsnum \<Rightarrow> jsnum" where
  "js_add NaN _ = NaN"
| "js_add _ NaN = NaN"
| "js_add PosInf NegInf = NaN"
| "js_add NegInf PosInf = NaN"
| "js_add PosInf _ = PosInf"
| "js_add _ PosInf = PosInf"
| "js_add NegInf _ = NegInf"
| "js_add _ NegInf = NegInf"
| "js_add (Fin a) (Fin b) = fl (a + b)"

fun is_neg :: "jsnum \<Rightarrow> bool" where
  "is_neg NegInf = True"
| "is_neg (Fin a) = (a < 0)"
| "is_neg _ = False"

fun js_mul :: "jsnum \<Rightarrow> jsnum \<Rightarrow> jsnum" where
  "js_mul (Fin a) (Fin b) = fl (a * b)"
| "js_mul a b =
     (if a = NaN \<or> b = NaN \<or> a = Fin 0 \<or> b = Fin 0 then NaN
      else if is_neg a = is_neg b then PosInf else NegInf)"

section \<open>Data model\<close>

text \<open>
  Identifiers are numbers. A line item is the object \<^verbatim>\<open>{ productId, quantity }\<close>. In the
  request body its quantity is a Number (\<open>jsnum item\<close>). The store holds each item as JSON
  text, and JSON has no infinity and no \<open>NaN\<close>: a stored quantity is a finite number or
  \<^verbatim>\<open>null\<close> (\<open>rat option item\<close>, \<open>None\<close> for \<^verbatim>\<open>null\<close>). A row of \<^verbatim>\<open>shopping_carts\<close> holds the
  owner and the \<^verbatim>\<open>products\<close> column, which may be SQL \<^verbatim>\<open>NULL\<close> (\<open>None\<close>).
\<close>

type_synonym uid = nat
type_synonym pid = nat

record 'q item =
  productId :: pid
  quantity :: 'q

text \<open>
  What \<^verbatim>\<open>JSON.stringify\<close> followed by the parse on reading gives for a Number, and for
  the item that holds it. An item that was read from the store is left as it is.
\<close>

fun json_number :: "jsnum \<Rightarrow> rat option" where
  "json_number (Fin r) = Some r"
| "json_number _ = None"

definition json_item :: "jsnum item \<Rightarrow> rat option item" where
  "json_item it = \<lparr>productId = productId it, quantity = json_number (quantity it)\<rparr>"

text \<open>\<^verbatim>\<open>ToNumber\<close> of a quantity read from the store: \<^verbatim>\<open>null\<close> converts to 0.\<close>

fun to_number :: "rat option \<Rightarrow> jsnum" where
  "to_number None = Fin 0"
| "to_number (Some r) = Fin r"

record cart_row =
  user_id :: uid
  products :: "rat option item list option"

text \<open>A row of the result of \<^verbatim>\<open>SELECT price FROM your_database_table_name WHERE id = $1\<close>.\<close>

record price_row =
  price :: jsnum

text \<open>The payload of a verified token, \<^verbatim>\<open>{ id, role }\<close>.\<close>

record user =
  id' :: uid
  role :: string

record product_row =
  product_name :: string
  product_description :: string
  product_images :: "string list"
  product_price :: jsnum

text \<open>What a rejected promise or a \<^verbatim>\<open>throw\<close> carries into the \<^verbatim>\<open>catch\<close> of a handler.\<close>

datatype exn = QueryError | TypeError

datatype body =
    Text string
  | CartJson cart_row
  | TotalJson jsnum
  | ProductJson product_row
  | Undefined

record response =
  status :: nat
  body :: body

text \<open>The two messages of the source that are not ASCII, as their UTF-8 bytes.\<close>

definition cart_not_found :: string where
  "cart_not_found = map char_of
     [0xD0, 0x9A, 0xD0, 0xBE, 0xD1, 0x80, 0xD0, 0xB7, 0xD0, 0xB8, 0xD0, 0xBD, 0xD0, 0xB0, 0x20,
      0xD0, 0xBD, 0xD0, 0xB5, 0x20, 0xD0, 0xBD, 0xD0, 0xB0, 0xD0, 0xB9, 0xD0, 0xB4, 0xD0, 0xB5,
      0xD0, 0xBD, 0xD0, 0xB0 :: nat]"

definition no_rights :: string where
  "no_rights = map char_of
     [0xD0, 0xA3, 0x20, 0xD0, 0xB2, 0xD0, 0xB0, 0xD1, 0x81, 0x20, 0xD0, 0xBD, 0xD0, 0xB5, 0xD1,
      0x82, 0x20, 0xD0, 0xBF, 0xD1, 0x80, 0xD0, 0xB0, 0xD0, 0xB2, 0x20, 0xD0, 0xB4, 0xD0, 0xBB,
      0xD1, 0x8F, 0x20, 0xD0, 0xB2, 0xD1, 0x8B, 0xD0, 0xBF, 0xD0, 0xBE, 0xD0, 0xBB, 0xD0, 0xBD,
      0xD0, 0xB5, 0xD0, 0xBD, 0xD0, 0xB8, 0xD1, 0x8F, 0x20, 0xD1, 0x8D, 0xD1, 0x82, 0xD0, 0xBE,
      0xD0, 0xB3, 0xD0, 0xBE, 0x20, 0xD0, 0xB4, 0xD0, 0xB5, 0xD0, 0xB9, 0xD1, 0x81, 0xD1, 0x82,
      0xD0, 0xB2, 0xD0, 0xB8, 0xD1, 0x8F :: nat]"

definition internal_server_error :: response where
  "internal_server_error = \<lparr>status = 500, body = Text ''Internal Server Error''\<rparr>"

section \<open>The authentication middleware\<close>

text \<open>
  \<^verbatim>\<open>jwt.verify(token, config.secret)\<close> is a parameter: \<open>verify t\<close> is the payload of a token
  it accepts and \<open>None\<close> where it throws (a malformed, forged or expired token). The header
  is \<open>None\<close> when the request has no \<^verbatim>\<open>authorization\<close> header; \<^verbatim>\<open>!token\<close> also holds for the
  empty string. \<open>next\<close> is the route handler; the handlers below catch their own exceptions,
  so the \<^verbatim>\<open>catch\<close> of the middleware is reached from \<^verbatim>\<open>jwt.verify\<close> only.
\<close>

definition authenticateToken ::
  "(string \<Rightarrow> user option) \<Rightarrow> string option \<Rightarrow> (user \<Rightarrow> 's \<Rightarrow> 's \<times> response) \<Rightarrow> 's \<Rightarrow> 's \<times> response"
where
  "authenticateToken verify token next db =
     (case token of
        None \<Rightarrow> (db, \<lparr>status = 401, body = Text ''Access Denied''\<rparr>)
      | Some t \<Rightarrow>
          if t = [] then (db, \<lparr>status = 401, body = Text ''Access Denied''\<rparr>)
          else (case verify t of
                  None \<Rightarrow> (db, \<lparr>status = 403, body = Text ''Invalid Token''\<rparr>)
                | Some u \<Rightarrow> next u db))"

section \<open>The cart store\<close>

text \<open>
  The table \<^verbatim>\<open>shopping_carts\<close> is the list of its rows. Its schema is not part of the
  source, so whether \<^verbatim>\<open>user_id\<close> carries a uniqueness constraint is the parameter \<open>uniq\<close>:
  with it, an \<^verbatim>\<open>INSERT\<close> for an owner who has a row is rejected.
\<close>

type_synonym carts = "cart_row list"

definition first_row :: "'a list \<Rightarrow> 'a option" where
  "first_row rows = (case rows of [] \<Rightarrow> None | r # _ \<Rightarrow> Some r)"

definition select_carts :: "carts \<Rightarrow> uid \<Rightarrow> cart_row list" where
  "select_carts tbl u = filter (\<lambda>r. user_id r = u) tbl"

text \<open>
  The query parameter of the \<^verbatim>\<open>INSERT\<close> is an array of request objects; each is stored as
  its JSON text, and \<^verbatim>\<open>RETURNING *\<close> gives the row as stored.
\<close>

definition insert_cart ::
  "bool \<Rightarrow> carts \<Rightarrow> uid \<Rightarrow> jsnum item list \<Rightarrow> exn + carts \<times> cart_row list"
where
  "insert_cart uniq tbl u ps =
     (if uniq \<and> select_carts tbl u \<noteq> [] then Inl QueryError
      else Inr (tbl @ [\<lparr>user_id = u, products = Some (map json_item ps)\<rparr>],
                [\<lparr>user_id = u, products = Some (map json_item ps)\<rparr>]))"

text \<open>
  The \<^verbatim>\<open>UPDATE\<close> is given the item list in its stored form: \<open>add_write\<close> below passes the
  items it read, which their JSON text gives back unchanged, followed by the stored form of
  the request object.
\<close>

definition update_cart ::
  "carts \<Rightarrow> rat option item list \<Rightarrow> uid \<Rightarrow> carts \<times> cart_row list"
where
  "update_cart tbl ps u =
     (let tbl' = map (\<lambda>r. if user_id r = u then r\<lparr>products := Some ps\<rparr> else r) tbl
      in (tbl', select_carts tbl' u))"

section \<open>The handlers\<close>

text \<open>
  \<open>add_write\<close> is the part of \<^verbatim>\<open>POST /add-to-cart\<close> after the first \<^verbatim>\<open>await\<close>: it is given
  \<^verbatim>\<open>existingCart.rows\<close> and the table as it is when the second query runs. Spreading a
  \<^verbatim>\<open>null\<close> product list throws a TypeError; every exception ends in the handler's \<^verbatim>\<open>catch\<close>.
\<close>

definition add_write ::
  "bool \<Rightarrow> uid \<Rightarrow> jsnum item \<Rightarrow> cart_row list \<Rightarrow> carts \<Rightarrow> carts \<times> response"
where
  "add_write uniq u it existing tbl =
     (if length existing = 0 then
        (case insert_cart uniq tbl u [it] of
           Inl err \<Rightarrow> (tbl, internal_server_error)
         | Inr (tbl', rows) \<Rightarrow>
             (tbl', \<lparr>status = 200,
                     body = (case first_row rows of None \<Rightarrow> Undefined | Some c \<Rightarrow> CartJson c)\<rparr>))
      else
        (case first_row existing of
           None \<Rightarrow> (tbl, internal_server_error)
         | Some c \<Rightarrow>
             (case products c of
                None \<Rightarrow> (tbl, internal_server_error)
              | Some existingProducts \<Rightarrow>
                  (let (tbl', rows) = update_cart tbl (existingProducts @ [json_item it]) u
                   in (tbl', \<lparr>status = 200,
                              body = (case first_row rows of None \<Rightarrow> Undefined
                                      | Some c' \<Rightarrow> CartJson c')\<rparr>)))))"

definition add_to_cart_handler :: "bool \<Rightarrow> pid \<Rightarrow> jsnum \<Rightarrow> user \<Rightarrow> carts \<Rightarrow> carts \<times> response" where
  "add_to_cart_handler uniq pid qty u tbl =
     add_write uniq (id' u) \<lparr>productId = pid, quantity = qty\<rparr> (select_carts tbl (id' u)) tbl"

definition get_cart_handler :: "user \<Rightarrow> carts \<Rightarrow> carts \<times> response" where
  "get_cart_handler u tbl =
     (case first_row (select_carts tbl (id' u)) of
        Some cart \<Rightarrow> (tbl, \<lparr>status = 200, body = CartJson cart\<rparr>)
      | None \<Rightarrow> (tbl, \<lparr>status = 404, body = Text cart_not_found\<rparr>))"

text \<open>
  The price query is a parameter, since the table it reads is not part of the source:
  \<open>cat p\<close> is \<open>Inl\<close> where the query is rejected and \<open>Inr\<close> of the rows otherwise. Reading
  \<^verbatim>\<open>.price\<close> of the missing first row of an empty result throws a TypeError.
\<close>

type_synonym price_query = "pid \<Rightarrow> exn + price_row list"

definition lookup_price :: "price_query \<Rightarrow> pid \<Rightarrow> exn + jsnum" where
  "lookup_price cat p =
     (case cat p of
        Inl err \<Rightarrow> Inl err
      | Inr rows \<Rightarrow> (case first_row rows of None \<Rightarrow> Inl TypeError | Some r \<Rightarrow> Inr (price r)))"

text \<open>
  The asynchronous reduce: each callback first awaits the accumulator of the one before, so
  the queries run one after the other in the order of the list, and the first rejection is
  the result.
\<close>

fun total_reduce :: "price_query \<Rightarrow> jsnum \<Rightarrow> rat option item list \<Rightarrow> exn + jsnum" where
  "total_reduce cat acc [] = Inr acc"
| "total_reduce cat acc (product # rest) =
     (case lookup_price cat (productId product) of
        Inl err \<Rightarrow> Inl err
      | Inr productPrice \<Rightarrow>
          total_reduce cat (js_add acc (js_mul productPrice (to_number (quantity product)))) rest)"

definition calculate_total_handler :: "price_query \<Rightarrow> user \<Rightarrow> carts \<Rightarrow> carts \<times> response" where
  "calculate_total_handler cat u tbl =
     (case first_row (select_carts tbl (id' u)) of
        None \<Rightarrow> (tbl, \<lparr>status = 404, body = Text cart_not_found\<rparr>)
      | Some cart \<Rightarrow>
          (case total_reduce cat (Fin 0) (case products cart of None \<Rightarrow> [] | Some ps \<Rightarrow> ps) of
             Inl err \<Rightarrow> (tbl, internal_server_error)
           | Inr total' \<Rightarrow> (tbl, \<lparr>status = 200, body = TotalJson total'\<rparr>)))"

text \<open>
  \<^verbatim>\<open>POST /add-product\<close>, the one route with a role check; the table \<^verbatim>\<open>products\<close> is the
  list of its rows. \<open>files\<close> is \<^verbatim>\<open>ctx.req.files\<close> with each buffer as its base64 text, and
  \<open>None\<close> when the request object has no such property: calling \<^verbatim>\<open>.map\<close> on it then throws
  a TypeError.
\<close>

definition add_product_handler ::
  "string \<Rightarrow> string \<Rightarrow> jsnum \<Rightarrow> string list option \<Rightarrow> user \<Rightarrow> product_row list
     \<Rightarrow> product_row list \<times> response"
where
  "add_product_handler name description pr files u tbl =
     (if role u \<noteq> ''admin'' then (tbl, \<lparr>status = 403, body = Text no_rights\<rparr>)
      else (case files of
              None \<Rightarrow> (tbl, internal_server_error)
            | Some images \<Rightarrow>
                (tbl @ [\<lparr>product_name = name, product_description = description,
                         product_images = images, product_price = pr\<rparr>],
                 \<lparr>status = 201,
                  body = ProductJson \<lparr>product_name = name, product_description = description,
                                      product_images = images, product_price = pr\<rparr>\<rparr>)))"

text \<open>The routes: the middleware in front of each handler.\<close>

definition add_to_cart ::
  "(string \<Rightarrow> user option) \<Rightarrow> bool \<Rightarrow> string option \<Rightarrow> pid \<Rightarrow> jsnum \<Rightarrow> carts \<Rightarrow> carts \<times> response"
where
  "add_to_cart verify uniq token pid qty = authenticateToken verify token (add_to_cart_handler uniq pid qty)"

definition get_cart :: "(string \<Rightarrow> user option) \<Rightarrow> string option \<Rightarrow> carts \<Rightarrow> carts \<times> response" where
  "get_cart verify token = authenticateToken verify token get_cart_handler"

definition calculate_total ::
  "(string \<Rightarrow> user option) \<Rightarrow> price_query \<Rightarrow> string option \<Rightarrow> carts \<Rightarrow> carts \<times> response"
where
  "calculate_total verify cat token = authenticateToken verify token (calculate_total_handler cat)"

definition add_product ::
  "(string \<Rightarrow> user option) \<Rightarrow> string option \<Rightarrow> string \<Rightarrow> string \<Rightarrow> jsnum
     \<Rightarrow> string list option \<Rightarrow> product_row list \<Rightarrow> product_row list \<times> response"
where
  "add_product verify token name description pr files =
     authenticateToken verify token (add_product_handler name description pr files)"

text \<open>
  A price table that answers every query: its rows are pairs of an id and a price, and the
  query returns the prices of the rows with the id asked for.
\<close>

definition price_table :: "(pid \<times> jsnum) list \<Rightarrow> price_query" where
  "price_table rows p = Inr (map (\<lambda>r. \<lparr>price = snd r\<rparr>) (filter (\<lambda>r. fst r = p) rows))"

section \<open>The store after a write\<close>

lemma select_carts_append:
  "select_carts (tbl @ rs) u = select_carts tbl u @ select_carts rs u"
  by (simp add: select_carts_def)

lemma select_carts_updated:
  "select_carts (map (\<lambda>r. if user_id r = u then r\<lparr>products := Some ps\<rparr> else r) tbl) v =
     (if v = u then map (\<lambda>r. r\<lparr>products := Some ps\<rparr>) (select_carts tbl u)
      else select_carts tbl v)"
  by (induction tbl) (auto simp: select_carts_def)

lemma first_row_map: "first_row (map f rows) = map_option f (first_row rows)"
  by (cases rows) (simp_all add: first_row_def)

lemma first_row_Nil_iff: "first_row rows = None \<longleftrightarrow> rows = []"
  by (cases rows) (simp_all add: first_row_def)

lemma add_handler_new:
  assumes "select_carts tbl (id' u) = []"
  shows "add_to_cart_handler uniq p q u tbl =
           (tbl @ [\<lparr>user_id = id' u,
                    products = Some [\<lparr>productId = p, quantity = json_number q\<rparr>]\<rparr>],
            \<lparr>status = 200,
             body = CartJson \<lparr>user_id = id' u,
                              products = Some [\<lparr>productId = p, quantity = json_number q\<rparr>]\<rparr>\<rparr>)"
  using assms
  by (simp add: add_to_cart_handler_def add_write_def insert_cart_def first_row_def json_item_def)

lemma add_handler_existing:
  assumes "first_row (select_carts tbl (id' u)) = Some c" and "products c = Some L"
  shows "add_to_cart_handler uniq p q u tbl =
           (map (\<lambda>r. if user_id r = id' u
                      then r\<lparr>products := Some (L @ [\<lparr>productId = p, quantity = json_number q\<rparr>])\<rparr>
                      else r) tbl,
            \<lparr>status = 200,
             body = CartJson
                      (c\<lparr>products := Some (L @ [\<lparr>productId = p, quantity = json_number q\<rparr>])\<rparr>)\<rparr>)"
proof -
  from assms(1) have ne: "select_carts tbl (id' u) \<noteq> []"
    by (auto simp: first_row_def)
  show ?thesis
    using assms ne
    by (simp add: add_to_cart_handler_def add_write_def update_cart_def Let_def
        select_carts_updated first_row_map json_item_def)
qed

lemma add_handler_null:
  assumes "first_row (select_carts tbl (id' u)) = Some c" and "products c = None"
  shows "add_to_cart_handler uniq p q u tbl = (tbl, internal_server_error)"
proof -
  from assms(1) have ne: "select_carts tbl (id' u) \<noteq> []"
    by (auto simp: first_row_def)
  show ?thesis
    using assms ne by (simp add: add_to_cart_handler_def add_write_def)
qed

section \<open>Appending to an existing cart\<close>

text \<open>
  Claim C6. For a principal whose cart has the items \<open>L\<close> and a request with a finite
  quantity, \<^verbatim>\<open>POST /add-to-cart\<close> answers 200 with the cart whose items are \<open>L\<close> followed by
  the new line item, and that same cart is what \<^verbatim>\<open>GET /get-cart\<close> reads from the store
  afterwards. \<open>L\<close> is arbitrary, so a line for the same product is neither merged nor
  incremented.
\<close>

theorem c6_append_line_item:
  assumes "first_row (select_carts tbl (id' u)) = Some c" and "products c = Some L"
  shows "snd (add_to_cart_handler uniq p (Fin r) u tbl) =
           \<lparr>status = 200,
            body = CartJson (c\<lparr>products := Some (L @ [\<lparr>productId = p, quantity = Some r\<rparr>])\<rparr>)\<rparr>
         \<and> snd (get_cart_handler u (fst (add_to_cart_handler uniq p (Fin r) u tbl))) =
           \<lparr>status = 200,
            body = CartJson (c\<lparr>products := Some (L @ [\<lparr>productId = p, quantity = Some r\<rparr>])\<rparr>)\<rparr>"
  using assms
  by (simp add: add_handler_existing [OF assms] get_cart_handler_def select_carts_updated
      first_row_map)

theorem c6_append_line_item_witness:
  "snd (add_to_cart_handler True 7 (Fin 3) \<lparr>id' = 1, role = ''customer''\<rparr>
         [\<lparr>user_id = 1, products = Some [\<lparr>productId = 7, quantity = Some 2\<rparr>]\<rparr>]) =
     \<lparr>status = 200,
      body = CartJson \<lparr>user_id = 1, products = Some [\<lparr>productId = 7, quantity = Some 2\<rparr>,
                                                      \<lparr>productId = 7, quantity = Some 3\<rparr>]\<rparr>\<rparr>
   \<and> snd (get_cart_handler \<lparr>id' = 1, role = ''customer''\<rparr>
         (fst (add_to_cart_handler True 7 (Fin 3) \<lparr>id' = 1, role = ''customer''\<rparr>
            [\<lparr>user_id = 1, products = Some [\<lparr>productId = 7, quantity = Some 2\<rparr>]\<rparr>]))) =
     \<lparr>status = 200,
      body = CartJson \<lparr>user_id = 1, products = Some [\<lparr>productId = 7, quantity = Some 2\<rparr>,
                                                      \<lparr>productId = 7, quantity = Some 3\<rparr>]\<rparr>\<rparr>"
  using c6_append_line_item [of "[\<lparr>user_id = 1, products = Some [\<lparr>productId = 7, quantity = Some 2\<rparr>]\<rparr>]"
      "\<lparr>id' = 1, role = ''customer''\<rparr>"
      "\<lparr>user_id = 1, products = Some [\<lparr>productId = 7, quantity = Some 2\<rparr>]\<rparr>"
      "[\<lparr>productId = 7, quantity = Some 2\<rparr>]" True 7 3]
  by (simp add: select_carts_def first_row_def)

section \<open>A principal without a cart\<close>

text \<open>
  Claim C5. For a principal with no row in \<^verbatim>\<open>shopping_carts\<close>, both \<^verbatim>\<open>GET /get-cart\<close> and
  \<^verbatim>\<open>GET /calculate-total\<close> leave the store as it is and answer 404 with the cart-not-found
  message: a response that is neither the internal-error response, nor a cart, nor a total
  (of zero or of anything else).
\<close>

theorem c5_no_cart:
  assumes "select_carts tbl (id' u) = []"
  shows "get_cart_handler u tbl = (tbl, \<lparr>status = 404, body = Text cart_not_found\<rparr>)
       \<and> calculate_total_handler cat u tbl = (tbl, \<lparr>status = 404, body = Text cart_not_found\<rparr>)
       \<and> \<lparr>status = 404, body = Text cart_not_found\<rparr> \<noteq> internal_server_error
       \<and> \<lparr>status = 404, body = Text cart_not_found\<rparr> \<noteq> \<lparr>status = 200, body = CartJson c\<rparr>
       \<and> \<lparr>status = 404, body = Text cart_not_found\<rparr> \<noteq> \<lparr>status = 200, body = TotalJson t\<rparr>"
  using assms
  by (simp add: get_cart_handler_def calculate_total_handler_def first_row_def
      internal_server_error_def)

theorem c5_no_cart_witness:
  "select_carts [\<lparr>user_id = 2, products = Some []\<rparr>] (id' \<lparr>id' = 1, role = ''customer''\<rparr>) = []
   \<and> get_cart_handler \<lparr>id' = 1, role = ''customer''\<rparr> [\<lparr>user_id = 2, products = Some []\<rparr>] =
       ([\<lparr>user_id = 2, products = Some []\<rparr>], \<lparr>status = 404, body = Text cart_not_found\<rparr>)
   \<and> calculate_total_handler (price_table []) \<lparr>id' = 1, role = ''customer''\<rparr>
         [\<lparr>user_id = 2, products = Some []\<rparr>] =
       ([\<lparr>user_id = 2, products = Some []\<rparr>], \<lparr>status = 404, body = Text cart_not_found\<rparr>)
   \<and> \<lparr>status = 404, body = Text cart_not_found\<rparr> \<noteq> \<lparr>status = 200, body = TotalJson (Fin 0)\<rparr>"
  using c5_no_cart [of "[\<lparr>user_id = 2, products = Some []\<rparr>]" "\<lparr>id' = 1, role = ''customer''\<rparr>"
      "price_table []" "\<lparr>user_id = 1, products = Some []\<rparr>" "Fin 0"]
  by (simp add: select_carts_def)

section \<open>An empty cart\<close>

text \<open>
  Claim C10. For a principal whose cart row exists with a product list that is empty or
  \<^verbatim>\<open>NULL\<close>, \<^verbatim>\<open>GET /calculate-total\<close> answers 200 with the total 0, whatever the price table.
\<close>

theorem c10_empty_or_null:
  assumes "first_row (select_carts tbl (id' u)) = Some c"
    and "products c = None \<or> products c = Some []"
  shows "calculate_total_handler cat u tbl = (tbl, \<lparr>status = 200, body = TotalJson (Fin 0)\<rparr>)"
  using assms by (auto simp: calculate_total_handler_def)

theorem c10_empty_or_null_witness:
  "first_row (select_carts [\<lparr>user_id = 1, products = None\<rparr>] (id' \<lparr>id' = 1, role = ''customer''\<rparr>)) =
     Some \<lparr>user_id = 1, products = None\<rparr>
   \<and> calculate_total_handler (price_table []) \<lparr>id' = 1, role = ''customer''\<rparr>
         [\<lparr>user_id = 1, products = None\<rparr>] =
       ([\<lparr>user_id = 1, products = None\<rparr>], \<lparr>status = 200, body = TotalJson (Fin 0)\<rparr>)"
  using c10_empty_or_null [of "[\<lparr>user_id = 1, products = None\<rparr>]" "\<lparr>id' = 1, role = ''customer''\<rparr>"
      "\<lparr>user_id = 1, products = None\<rparr>" "price_table []"]
  by (simp add: select_carts_def first_row_def)

end
